theory Spec2Isabelle
  imports Main "HOL-Library.Word"
begin

unbundle bit_operations_syntax

section \<open>Data model of \<open>osmem.c\<close>\<close>

text \<open>
  Pointers and \<open>size_t\<close> values are 64-bit words (LP64); \<open>NULL\<close> is \<open>0\<close> and
  \<open>(void *)-1\<close> is the all-ones word. Arithmetic on them wraps as in C.
\<close>

type_synonym addr = "64 word"
type_synonym size_t = "64 word"

text \<open>
  Modelled from the spec: \<open>block_meta.h\<close> is not among the sources. The spec's block record
  has the fields size, status, prev and next; \<open>struct block_meta\<close> is taken as
  \<open>{size_t size; int status; struct block_meta *prev; struct block_meta *next;}\<close>.
  The fields \<open>size\<close> and \<open>next\<close> are written \<open>size_m\<close> and \<open>next_m\<close>.
\<close>

record block_meta =
  size_m :: size_t
  status :: "32 word"
  prev :: addr
  next_m :: addr

definition zero_meta :: block_meta where
  "zero_meta = \<lparr>size_m = 0, status = 0, prev = 0, next_m = 0\<rparr>"

text \<open>
  Modelled from the spec: \<open>META_SIZE\<close> is \<open>sizeof(struct block_meta)\<close>, whose declaration is
  in the missing header; on LP64 the four fields above occupy 32 bytes.
\<close>

definition META_SIZE :: size_t where
  "META_SIZE = 32"

definition MMAP_THRESHOLD :: size_t where
  "MMAP_THRESHOLD = 128 * 1024"

definition ALIGNMENT :: size_t where
  "ALIGNMENT = 8"

text \<open>The expression \<open>(size + (ALIGNMENT - 1)) & ~(ALIGNMENT - 1)\<close>.\<close>

definition align :: "size_t \<Rightarrow> size_t" where
  "align sz = (sz + (ALIGNMENT - 1)) AND NOT (ALIGNMENT - 1)"

text \<open>
  The process state: the two globals of the program, the memory, and the part of the
  operating system the program talks to.

  Memory is kept in two typed views over the same addresses: \<open>hdrs\<close> gives the
  \<open>struct block_meta\<close> stored at an address, \<open>bytes\<close> the payload bytes. A header that was
  merged away stays in \<open>hdrs\<close> as it stays in memory; \<open>memset\<close> and \<open>memcpy\<close> write
  \<open>bytes\<close> only, so a payload write over such a stale header is not reflected in
  \<open>hdrs\<close>. Whether an address may be accessed is decided by the regions the OS has
  handed out: the heap region \<open>[brk_min, brk)\<close> and the anonymous mappings \<open>maps\<close>
  (start, length).
\<close>

record state =
  global_base :: addr
  last_g :: addr
  hdrs :: "addr \<Rightarrow> block_meta"
  bytes :: "addr \<Rightarrow> 8 word"
  brk :: addr
  brk_min :: addr
  brk_max :: addr
  maps :: "(addr \<times> size_t) list"
  mmap_cur :: addr
  mmap_end :: addr
  pagesize :: "32 word"

text \<open>
  Outcomes other than a normal return. Modelled from the spec: the \<open>DIE\<close> macro is
  declared in the missing header; as the spec's fatal-error helper it reports the
  diagnostic and terminates the process when its condition holds, which is
  \<open>Fatal msg\<close>. \<open>Crash f p\<close> is an access through the pointer \<open>p\<close> in function \<open>f\<close> to
  memory that is not accessible (\<open>p = 0\<close>: a null dereference), \<open>Hang\<close> is a loop that
  never ends.
\<close>

datatype error = Fatal string | Crash string addr | Hang

definition bind_e :: "error + 'a \<Rightarrow> ('a \<Rightarrow> error + 'b) \<Rightarrow> error + 'b" where
  "bind_e m f = (case m of Inl e \<Rightarrow> Inl e | Inr x \<Rightarrow> f x)"

subsection \<open>Accessible memory\<close>

definition in_region :: "addr \<Rightarrow> size_t \<Rightarrow> addr \<Rightarrow> size_t \<Rightarrow> bool" where
  "in_region a n start len \<longleftrightarrow> uint start \<le> uint a \<and> uint a + uint n \<le> uint start + uint len"

definition valid_range :: "state \<Rightarrow> addr \<Rightarrow> size_t \<Rightarrow> bool" where
  "valid_range s a n \<longleftrightarrow>
     a \<noteq> 0 \<and>
     ((uint (brk_min s) \<le> uint a \<and> uint a + uint n \<le> uint (brk s)) \<or>
      list_ex (\<lambda>(start, len). in_region a n start len) (maps s))"

definition valid_hdr :: "state \<Rightarrow> addr \<Rightarrow> bool" where
  "valid_hdr s a \<longleftrightarrow> valid_range s a META_SIZE"

text \<open>Continue with \<open>k\<close> if a header may be accessed at \<open>p\<close>, crash otherwise.\<close>

definition chk :: "string \<Rightarrow> state \<Rightarrow> addr \<Rightarrow> (error + 'a) \<Rightarrow> error + 'a" where
  "chk fn s p k = (if valid_hdr s p then k else Inl (Crash fn p))"

definition set_size :: "state \<Rightarrow> addr \<Rightarrow> size_t \<Rightarrow> state" where
  "set_size s p v = s\<lparr>hdrs := (hdrs s)(p := (hdrs s p)\<lparr>size_m := v\<rparr>)\<rparr>"

definition set_status :: "state \<Rightarrow> addr \<Rightarrow> 32 word \<Rightarrow> state" where
  "set_status s p v = s\<lparr>hdrs := (hdrs s)(p := (hdrs s p)\<lparr>status := v\<rparr>)\<rparr>"

definition set_prev :: "state \<Rightarrow> addr \<Rightarrow> addr \<Rightarrow> state" where
  "set_prev s p v = s\<lparr>hdrs := (hdrs s)(p := (hdrs s p)\<lparr>prev := v\<rparr>)\<rparr>"

definition set_next :: "state \<Rightarrow> addr \<Rightarrow> addr \<Rightarrow> state" where
  "set_next s p v = s\<lparr>hdrs := (hdrs s)(p := (hdrs s p)\<lparr>next_m := v\<rparr>)\<rparr>"

subsection \<open>The operating system\<close>

text \<open>
  Modelled from the spec: the OS primitives are external to the sources. ExtendHeap is
  \<open>sbrk\<close>: it moves the top of the heap region by the increment, read as a signed
  \<open>intptr_t\<close>, and returns the previous top; it returns \<open>(void *)-1\<close> when the new top
  would leave \<open>[brk_min, brk_max]\<close>. \<open>sbrk(0)\<close> reports the top.
\<close>

definition sbrk :: "state \<Rightarrow> 64 word \<Rightarrow> state \<times> addr" where
  "sbrk s increment =
     (if increment = 0 then (s, brk s)
      else let nb = uint (brk s) + sint increment in
        if nb < uint (brk_min s) \<or> uint (brk_max s) < nb then (s, - 1)
        else (s\<lparr>brk := word_of_int nb\<rparr>, brk s))"

text \<open>
  Modelled from the spec: MapAnonymous is \<open>mmap\<close> with \<open>MAP_PRIVATE | MAP_ANONYMOUS\<close>: a
  fresh zero-initialised region of the requested length, placed at the cursor
  \<open>mmap_cur\<close>; it returns \<open>MAP_FAILED = (void *)-1\<close> when the length is zero or the
  area up to \<open>mmap_end\<close> is exhausted.
\<close>

definition mmap_anon :: "state \<Rightarrow> size_t \<Rightarrow> state \<times> addr" where
  "mmap_anon s len =
     (if len = 0 \<or> mmap_cur s = 0 \<or> uint (mmap_end s) < uint (mmap_cur s) + uint len
      then (s, - 1)
      else (s\<lparr>maps := (mmap_cur s, len) # maps s,
               mmap_cur := mmap_cur s + len,
               hdrs := (\<lambda>a. if in_region a META_SIZE (mmap_cur s) len then zero_meta else hdrs s a),
               bytes := (\<lambda>a. if in_region a 1 (mmap_cur s) len then 0 else bytes s a)\<rparr>,
            mmap_cur s))"

text \<open>
  Modelled from the spec: Unmap is \<open>munmap\<close>. It removes \<open>len\<close> bytes from the front of
  the mapping that starts at the address, and fails (\<open>-1\<close>) on length zero.
\<close>

fun unmap_regions :: "addr \<Rightarrow> size_t \<Rightarrow> (addr \<times> size_t) list \<Rightarrow> (addr \<times> size_t) list" where
  "unmap_regions a len [] = []"
| "unmap_regions a len ((start, l) # rs) =
     (if start = a then (if len < l then [(a + len, l - len)] else []) else [(start, l)])
     @ unmap_regions a len rs"

definition munmap :: "state \<Rightarrow> addr \<Rightarrow> size_t \<Rightarrow> state \<times> 32 word" where
  "munmap s a len =
     (if len = 0 then (s, - 1) else (s\<lparr>maps := unmap_regions a len (maps s)\<rparr>, 0))"

definition getpagesize :: "state \<Rightarrow> 32 word" where
  "getpagesize s = pagesize s"

definition memset :: "string \<Rightarrow> state \<Rightarrow> addr \<Rightarrow> 8 word \<Rightarrow> size_t \<Rightarrow> error + state" where
  "memset fn s p c n =
     (if n \<noteq> 0 \<and> \<not> valid_range s p n then Inl (Crash fn p)
      else Inr (s\<lparr>bytes := (\<lambda>a. if a - p < n then c else bytes s a)\<rparr>))"

definition memcpy :: "string \<Rightarrow> state \<Rightarrow> addr \<Rightarrow> addr \<Rightarrow> size_t \<Rightarrow> error + state" where
  "memcpy fn s dest src n =
     (if n \<noteq> 0 \<and> \<not> valid_range s dest n then Inl (Crash fn dest)
      else if n \<noteq> 0 \<and> \<not> valid_range s src n then Inl (Crash fn src)
      else Inr (s\<lparr>bytes := (\<lambda>a. if a - dest < n then bytes s (src + (a - dest)) else bytes s a)\<rparr>))"

section \<open>The allocator\<close>

text \<open>\<open>preallocate\<close> (lines 18-35).\<close>

definition preallocate :: "state \<Rightarrow> size_t \<Rightarrow> error + state \<times> addr" where
  "preallocate s sz =
     (let (s1, request) = sbrk s MMAP_THRESHOLD in
      if request = - 1 then Inl (Fatal ''Preallocation failed'')
      else chk ''preallocate'' s1 request
        (let s2 = set_size s1 request sz;
             s3 = set_status s2 request 1;
             s4 = set_next s3 request 0;
             s5 = set_prev s4 request 0
         in Inr (s5\<lparr>global_base := request, last_g := request\<rparr>, request + META_SIZE)))"

text \<open>\<open>request_mmap\<close> (lines 38-51). The links of the block are not written: they keep
  the zeros of the fresh mapping.\<close>

definition request_mmap :: "state \<Rightarrow> size_t \<Rightarrow> error + state \<times> addr" where
  "request_mmap s sz =
     (let (s1, request) = mmap_anon s (sz + META_SIZE) in
      if request = - 1 then Inl (Fatal ''mmap failed'')
      else chk ''request_mmap'' s1 request
        (let s2 = set_size s1 request sz;
             s3 = set_status s2 request 2
         in Inr (s3, request + META_SIZE)))"

text \<open>\<open>find_best_block\<close> (lines 54-71): the \<open>while (block)\<close> loop, which does not end on a
  cyclic list; \<open>None\<close> is that case.\<close>

partial_function (option) find_best_block_loop ::
  "state \<Rightarrow> size_t \<Rightarrow> size_t \<Rightarrow> addr \<Rightarrow> addr \<Rightarrow> (error + addr) option" where
  "find_best_block_loop s sz best_fit_size best_fit_block block =
     (if block = 0 then Some (Inr best_fit_block)
      else if \<not> valid_hdr s block then Some (Inl (Crash ''find_best_block'' block))
      else if status (hdrs s block) = 0 \<and> sz \<le> size_m (hdrs s block)
              \<and> size_m (hdrs s block) < best_fit_size
        then find_best_block_loop s sz (size_m (hdrs s block)) block (next_m (hdrs s block))
        else find_best_block_loop s sz best_fit_size best_fit_block (next_m (hdrs s block)))"

declare find_best_block_loop.simps [code]

definition find_best_block :: "state \<Rightarrow> size_t \<Rightarrow> (error + addr) option" where
  "find_best_block s sz = find_best_block_loop s sz MMAP_THRESHOLD 0 (global_base s)"

text \<open>\<open>try_split\<close> (lines 74-104).\<close>

definition try_split :: "state \<Rightarrow> addr \<Rightarrow> size_t \<Rightarrow> error + state \<times> addr" where
  "try_split s best_fit_block sz =
     chk ''try_split'' s best_fit_block
     (let remaining_size = size_m (hdrs s best_fit_block) - sz in
      if META_SIZE + 1 \<le> remaining_size then
        let block = best_fit_block + sz + META_SIZE in
        chk ''try_split'' s block
        (let s1 = set_size s block (remaining_size - META_SIZE);
             s2 = set_status s1 block 0;
             s3 = set_next s2 block (next_m (hdrs s2 best_fit_block));
             s4 = set_prev s3 block best_fit_block;
             s5 = set_size s4 best_fit_block sz;
             s6 = set_status s5 best_fit_block 1;
             nx = next_m (hdrs s6 best_fit_block)
         in bind_e (if nx \<noteq> 0 then chk ''try_split'' s6 nx (Inr (set_prev s6 nx block))
                    else Inr s6)
              (\<lambda>s7. let s8 = set_next s7 best_fit_block block;
                         s9 = (if next_m (hdrs s8 block) = 0 then s8\<lparr>last_g := block\<rparr> else s8)
                     in Inr (s9, best_fit_block + META_SIZE)))
      else Inr (set_status s best_fit_block 1, best_fit_block + META_SIZE))"

text \<open>\<open>expand_last\<close> (lines 107-122).\<close>

definition expand_last :: "state \<Rightarrow> size_t \<Rightarrow> error + state \<times> addr" where
  "expand_last s sz =
     (let (s0, cur) = sbrk s 0;
          real_size = cur - last_g s0;
          new_size = align (sz - real_size + META_SIZE);
          (s1, request) = sbrk s0 new_size
      in if request = - 1 then Inl (Fatal ''sbrk failed'')
         else chk ''expand_last'' s1 (last_g s1)
           (let s2 = set_size s1 (last_g s1) sz;
                s3 = set_status s2 (last_g s2) 1
            in Inr (s3, last_g s3 + META_SIZE)))"

text \<open>\<open>create_new_block\<close> (lines 125-143).\<close>

definition create_new_block :: "state \<Rightarrow> size_t \<Rightarrow> error + state \<times> addr" where
  "create_new_block s sz =
     (let (s1, request) = sbrk s (sz + META_SIZE) in
      if request = - 1 then Inl (Fatal ''sbrk failed'')
      else chk ''create_new_block'' s1 request
        (let block = request;
             s2 = set_size s1 block sz;
             s3 = set_status s2 block 1
         in chk ''create_new_block'' s3 (last_g s3)
           (let s4 = set_next s3 (last_g s3) block;
                s5 = set_prev s4 block (last_g s4);
                s6 = set_next s5 block 0
            in Inr (s6\<lparr>last_g := block\<rparr>, block + META_SIZE))))"

text \<open>\<open>os_malloc\<close> (lines 145-172). \<open>size <= 0\<close> on a \<open>size_t\<close> is \<open>size == 0\<close>.\<close>

definition os_malloc :: "state \<Rightarrow> size_t \<Rightarrow> error + state \<times> addr" where
  "os_malloc s size0 =
     (if size0 = 0 then Inr (s, 0)
      else let sz = align size0 in
        if sz < MMAP_THRESHOLD then
          if global_base s = 0 then preallocate s sz
          else case find_best_block s sz of
              None \<Rightarrow> Inl Hang
            | Some (Inl e) \<Rightarrow> Inl e
            | Some (Inr best_fit_block) \<Rightarrow>
                if best_fit_block \<noteq> 0 then try_split s best_fit_block sz
                else chk ''os_malloc'' s (last_g s)
                  (if status (hdrs s (last_g s)) = 0 \<and> size_m (hdrs s (last_g s)) < sz
                   then expand_last s sz
                   else create_new_block s sz)
        else request_mmap s sz)"

text \<open>\<open>os_free\<close> (lines 174-219). \<open>free_prev\<close> is the merge into a Free predecessor
  (lines 190-201) and returns the block to continue with; \<open>free_next\<close> is the merge of
  a Free successor (lines 203-212).\<close>

definition free_prev :: "state \<Rightarrow> addr \<Rightarrow> addr \<Rightarrow> addr \<Rightarrow> error + state \<times> addr" where
  "free_prev s block prev_block next_block =
     (if prev_block = 0 then Inr (s, block)
      else chk ''os_free'' s prev_block
        (if status (hdrs s prev_block) \<noteq> 0 then Inr (s, block)
         else
           let s1 = set_size s prev_block
                      (size_m (hdrs s prev_block) + (size_m (hdrs s block) + META_SIZE));
               s2 = set_next s1 prev_block next_block
           in bind_e (if next_block \<noteq> 0
                      then chk ''os_free'' s2 next_block (Inr (set_prev s2 next_block prev_block))
                      else Inr s2)
                (\<lambda>s3. Inr (if last_g s3 = block then s3\<lparr>last_g := prev_block\<rparr> else s3,
                           prev_block))))"

definition free_next :: "state \<Rightarrow> addr \<Rightarrow> addr \<Rightarrow> error + state" where
  "free_next s block next_block =
     (if next_block = 0 then Inr s
      else chk ''os_free'' s next_block
        (if status (hdrs s next_block) \<noteq> 0 then Inr s
         else
           let s1 = set_size s block
                      (size_m (hdrs s block) + (size_m (hdrs s next_block) + META_SIZE));
               s2 = set_next s1 block (next_m (hdrs s1 next_block));
               nn = next_m (hdrs s2 next_block)
           in bind_e (if nn \<noteq> 0 then chk ''os_free'' s2 nn (Inr (set_prev s2 nn block))
                      else Inr s2)
                (\<lambda>s3. Inr (if last_g s3 = next_block then s3\<lparr>last_g := block\<rparr> else s3))))"

definition os_free :: "state \<Rightarrow> addr \<Rightarrow> error + state" where
  "os_free s ptr =
     (if ptr = 0 then Inr s
      else let block = ptr - META_SIZE in
        chk ''os_free'' s block
        (if status (hdrs s block) = 0 then Inr s
         else if status (hdrs s block) = 1 then
           let prev_block = prev (hdrs s block);
               next_block = next_m (hdrs s block)
           in bind_e (free_prev s block prev_block next_block)
                (\<lambda>(s1, block1). bind_e (free_next s1 block1 next_block)
                   (\<lambda>s2. Inr (set_status s2 block1 0)))
         else if status (hdrs s block) = 2 then
           let (s1, err) = munmap s block (size_m (hdrs s block) + META_SIZE) in
           if err = - 1 then Inl (Fatal ''munmap failed!'') else Inr s1
         else Inr s))"

text \<open>\<open>os_calloc\<close> (lines 221-256). \<open>getpagesize\<close> returns an \<open>int\<close> that is stored in a
  \<open>long\<close> and cast to \<open>unsigned int\<close> for the comparison. The result of \<open>mmap\<close> is used
  as it comes.\<close>

definition os_calloc :: "state \<Rightarrow> size_t \<Rightarrow> size_t \<Rightarrow> error + state \<times> addr" where
  "os_calloc s nmemb sz =
     (if sz = 0 \<or> nmemb = 0 then Inr (s, 0)
      else let page_size = (scast (getpagesize s) :: 64 word) in
        if page_size = - 1 then Inl (Fatal ''Page size error!'')
        else let total_size = align (nmemb * sz) in
          if (ucast (ucast page_size :: 32 word) :: 64 word) < total_size + META_SIZE then
            let (s1, ptr) = mmap_anon s (total_size + META_SIZE);
                block = ptr
            in chk ''os_calloc'' s1 block
              (let s2 = set_size s1 block total_size;
                   s3 = set_status s2 block 2
               in bind_e (memset ''os_calloc'' s3 (ptr + META_SIZE) 0 total_size)
                    (\<lambda>s4. Inr (s4, block + META_SIZE)))
          else bind_e (os_malloc s total_size)
                 (\<lambda>(s1, ptr). if ptr \<noteq> 0
                    then bind_e (memset ''os_calloc'' s1 ptr 0 total_size) (\<lambda>s2. Inr (s2, ptr))
                    else Inr (s1, ptr)))"

text \<open>\<open>coalesce\<close> (lines 259-274). The condition reads \<open>block->next->status\<close> first and
  compares \<open>block->next\<close> with \<open>NULL\<close> afterwards.\<close>

definition coalesce :: "state \<Rightarrow> addr \<Rightarrow> error + state" where
  "coalesce s block =
     chk ''coalesce'' s block
     (chk ''coalesce'' s (next_m (hdrs s block))
      (if status (hdrs s (next_m (hdrs s block))) = 0 \<and> next_m (hdrs s block) \<noteq> 0 then
         let next_block = next_m (hdrs s block);
             s1 = (if next_m (hdrs s next_block) = 0
                   then set_size s block
                          (size_m (hdrs s block) + (size_m (hdrs s next_block) + META_SIZE))
                   else set_size s block
                          (size_m (hdrs s block) + (next_m (hdrs s next_block) - next_block)));
             nn = next_m (hdrs s1 next_block)
         in bind_e (if nn \<noteq> 0 then chk ''coalesce'' s1 nn (Inr (set_prev s1 nn block))
                    else Inr s1)
              (\<lambda>s2. Inr (set_next s2 block (next_m (hdrs s2 next_block))))
       else Inr s))"

text \<open>\<open>split_realloc\<close> (lines 277-313). \<open>(int)remaining_size\<close> keeps the low 32 bits, read
  as signed.\<close>

definition split_realloc :: "state \<Rightarrow> addr \<Rightarrow> addr \<Rightarrow> size_t \<Rightarrow> error + state \<times> addr" where
  "split_realloc s block ptr size0 =
     (let sz = align size0 in
      chk ''split_realloc'' s block
      (let remaining_size = size_m (hdrs s block) - sz - META_SIZE in
       if sint (ucast remaining_size :: 32 word) \<le> 0
       then Inr (set_size s block sz, block + META_SIZE)
       else if status (hdrs s block) = 2 then
         bind_e (os_malloc s sz)
           (\<lambda>(s1, dest). bind_e (memcpy ''split_realloc'' s1 dest ptr sz)
              (\<lambda>s2. bind_e (os_free s2 ptr) (\<lambda>s3. Inr (s3, dest))))
       else if status (hdrs s block) = 1 then
         let remaining_block = block + sz + META_SIZE in
         chk ''split_realloc'' s remaining_block
         (let s1 = set_size s remaining_block remaining_size;
              s2 = set_status s1 remaining_block 0;
              s3 = set_next s2 remaining_block (next_m (hdrs s2 block));
              nx = next_m (hdrs s3 block)
          in bind_e (if nx \<noteq> 0
                     then chk ''split_realloc'' s3 nx (Inr (set_prev s3 nx remaining_block))
                     else Inr s3)
               (\<lambda>s4. let s5 = set_prev s4 remaining_block block;
                          s6 = set_next s5 block remaining_block;
                          s7 = set_size s6 block sz;
                          s8 = set_status s7 block 1
                      in Inr (s8, block + META_SIZE)))
       else Inr (s, 0)))"

text \<open>\<open>os_realloc\<close> (lines 315-368). The code after the \<open>if\<close>/\<open>else if\<close> (lines 362-367) is
  reached only from the branch \<open>size > block->size\<close>; it is \<open>realloc_move\<close>.\<close>

definition realloc_move :: "state \<Rightarrow> addr \<Rightarrow> addr \<Rightarrow> size_t \<Rightarrow> error + state \<times> addr" where
  "realloc_move s block ptr sz =
     bind_e (os_malloc s sz)
       (\<lambda>(s1, dest). chk ''os_realloc'' s1 block
          (bind_e (memcpy ''os_realloc'' s1 dest ptr (size_m (hdrs s1 block)))
             (\<lambda>s2. bind_e (os_free s2 ptr) (\<lambda>s3. Inr (s3, dest)))))"

definition os_realloc :: "state \<Rightarrow> addr \<Rightarrow> size_t \<Rightarrow> error + state \<times> addr" where
  "os_realloc s ptr size0 =
     (if ptr = 0 then os_malloc s size0
      else if size0 = 0 then bind_e (os_free s ptr) (\<lambda>s1. Inr (s1, 0))
      else let block = ptr - META_SIZE in
        chk ''os_realloc'' s block
        (if status (hdrs s block) = 0 then Inr (s, 0)
         else if size0 = size_m (hdrs s block) then Inr (s, ptr)
         else if size0 < size_m (hdrs s block) then split_realloc s block ptr size0
         else
           let sz = align size0 in
           if next_m (hdrs s block) = 0 then expand_last (s\<lparr>last_g := block\<rparr>) sz
           else
             let real_size = next_m (hdrs s block) - block - META_SIZE in
             bind_e (coalesce s block)
               (\<lambda>s1. if size_m (hdrs s1 block) = sz
                  then Inr (set_size s1 block sz, block + META_SIZE)
                  else if sz \<le> real_size then split_realloc s1 block ptr sz
                  else if sz < size_m (hdrs s1 block) then split_realloc s1 block ptr sz
                  else realloc_move s1 block ptr sz)))"

section \<open>Runs of the public operations\<close>

text \<open>
  A process that has not allocated yet: both globals are \<open>NULL\<close>, the heap region is
  empty and may grow from \<open>0x10000000\<close> up to \<open>0x20000000\<close>, mappings are placed from
  \<open>0x7f0000000000\<close> on, pages have 4096 bytes.
\<close>

definition init_state :: state where
  "init_state =
     \<lparr>global_base = 0, last_g = 0, hdrs = (\<lambda>_. zero_meta), bytes = (\<lambda>_. 0),
      brk = 0x10000000, brk_min = 0x10000000, brk_max = 0x20000000, maps = [],
      mmap_cur = 0x7f0000000000, mmap_end = 0x7f8000000000, pagesize = 4096\<rparr>"

text \<open>
  A client program is a list of calls; the pointers returned so far are kept in a
  list, and \<open>Realloc i n\<close> and \<open>Free i\<close> pass the \<open>i\<close>-th of them (counted from 0).
\<close>

datatype call = Malloc size_t | Calloc size_t size_t | Realloc nat size_t | Free nat

fun exec :: "call \<Rightarrow> state \<times> addr list \<Rightarrow> error + state \<times> addr list" where
  "exec (Malloc n) (s, ps) = bind_e (os_malloc s n) (\<lambda>(s', p). Inr (s', ps @ [p]))"
| "exec (Calloc n m) (s, ps) = bind_e (os_calloc s n m) (\<lambda>(s', p). Inr (s', ps @ [p]))"
| "exec (Realloc i n) (s, ps) =
     bind_e (os_realloc s (ps ! i) n) (\<lambda>(s', p). Inr (s', ps @ [p]))"
| "exec (Free i) (s, ps) = bind_e (os_free s (ps ! i)) (\<lambda>s'. Inr (s', ps))"

fun run :: "call list \<Rightarrow> state \<times> addr list \<Rightarrow> error + state \<times> addr list" where
  "run [] c = Inr c"
| "run (x # xs) c = bind_e (exec x c) (run xs)"

text \<open>
  \<open>dir_is s a bs\<close>: the Block Directory read from \<open>a\<close> along the \<open>next\<close> links is exactly
  the list \<open>bs\<close> of (address, size, status), and ends with \<open>NULL\<close>.
\<close>

fun dir_is :: "state \<Rightarrow> addr \<Rightarrow> (addr \<times> size_t \<times> 32 word) list \<Rightarrow> bool" where
  "dir_is s a [] \<longleftrightarrow> a = 0"
| "dir_is s a ((b, sz, st) # bs) \<longleftrightarrow>
     a = b \<and> a \<noteq> 0 \<and> size_m (hdrs s a) = sz \<and> status (hdrs s a) = st
     \<and> dir_is s (next_m (hdrs s a)) bs"

text \<open>Two neighbours of a directory listing are both Free (status 0).\<close>

fun adjacent_free :: "(addr \<times> size_t \<times> 32 word) list \<Rightarrow> bool" where
  "adjacent_free ((a, sa, sta) # (b, sb, stb) # bs) \<longleftrightarrow>
     (sta = 0 \<and> stb = 0) \<or> adjacent_free ((b, sb, stb) # bs)"
| "adjacent_free bs \<longleftrightarrow> False"

text \<open>The state and the pointers a fresh process has after a list of calls.\<close>

definition state_after :: "call list \<Rightarrow> state" where
  "state_after cs = fst (projr (run cs (init_state, [])))"

definition ptrs_after :: "call list \<Rightarrow> addr list" where
  "ptrs_after cs = snd (projr (run cs (init_state, [])))"

text \<open>The increment \<open>expand_last\<close> passes to \<open>sbrk\<close> for the block at \<open>b\<close> and the
  (aligned) size \<open>sz\<close>.\<close>

definition expand_inc :: "state \<Rightarrow> addr \<Rightarrow> size_t \<Rightarrow> size_t" where
  "expand_inc s b sz = align (sz - (brk s - b) + META_SIZE)"

text \<open>
  The best-fit scan of \<open>find_best_block\<close> over a directory listing, and the blocks it
  looks for: \<open>free_fit sz x\<close> is a Free block of at least \<open>sz\<close> bytes, \<open>fits_below best sz x\<close>
  one that is also smaller than \<open>best\<close>.
\<close>

fun best_fit_scan ::
  "(addr \<times> size_t \<times> 32 word) list \<Rightarrow> size_t \<Rightarrow> size_t \<Rightarrow> addr \<Rightarrow> addr" where
  "best_fit_scan [] sz best_fit_size best_fit_block = best_fit_block"
| "best_fit_scan ((a, m, st) # bs) sz best_fit_size best_fit_block =
     (if st = 0 \<and> sz \<le> m \<and> m < best_fit_size
      then best_fit_scan bs sz m a
      else best_fit_scan bs sz best_fit_size best_fit_block)"

definition free_fit :: "size_t \<Rightarrow> addr \<times> size_t \<times> 32 word \<Rightarrow> bool" where
  "free_fit sz x \<longleftrightarrow> snd (snd x) = 0 \<and> sz \<le> fst (snd x)"

definition fits_below :: "size_t \<Rightarrow> size_t \<Rightarrow> addr \<times> size_t \<times> 32 word \<Rightarrow> bool" where
  "fits_below best sz x \<longleftrightarrow> free_fit sz x \<and> fst (snd x) < best"

text \<open>\<open>nc r\<close>: the outcome \<open>r\<close> is not a crash inside \<open>coalesce\<close>.\<close>

definition nc :: "error + 'a \<Rightarrow> bool" where
  "nc r \<longleftrightarrow> (\<forall>a. r \<noteq> Inl (Crash ''coalesce'' a))"

section \<open>Evaluation and arithmetic lemmas\<close>

lemmas model_defs =
  init_state_def state_after_def ptrs_after_def bind_e_def
  os_malloc_def os_free_def os_realloc_def os_calloc_def
  preallocate_def request_mmap_def find_best_block_def find_best_block_loop.simps
  try_split_def expand_last_def create_new_block_def free_prev_def free_next_def
  coalesce_def split_realloc_def realloc_move_def
  sbrk_def mmap_anon_def munmap_def memset_def memcpy_def getpagesize_def
  chk_def valid_hdr_def valid_range_def in_region_def
  set_size_def set_status_def set_prev_def set_next_def
  align_def expand_inc_def META_SIZE_def MMAP_THRESHOLD_def ALIGNMENT_def zero_meta_def Let_def

lemma seven_mask: "(7::64 word) = mask 3"
  by (simp add: mask_eq_exp_minus_1)

lemma and_not_7: "(x::64 word) AND NOT 7 = push_bit 3 (drop_bit 3 x)"
  unfolding seven_mask
  by (rule bit_eqI) (auto simp add: bit_simps)

lemma unat_lt64: "unat (x::64 word) < 18446744073709551616"
  using unsigned_less [of x, where ?'a = nat] by simp

lemma and_not_7_unat: "unat ((x::64 word) AND NOT 7) = 8 * (unat x div 8)"
proof -
  have lt: "unat x < 18446744073709551616" by (rule unat_lt64)
  have d: "unat (drop_bit 3 x) = unat x div 8"
    by (simp add: drop_bit_eq_div unat_div)
  have "unat (push_bit 3 (drop_bit 3 x)) = (unat (drop_bit 3 x) * 8) mod 2 ^ 64"
    by (simp add: push_bit_eq_mult unat_word_ariths)
  also have "\<dots> = (unat x div 8 * 8) mod 18446744073709551616"
    by (simp add: d)
  also have "\<dots> = unat x div 8 * 8"
    using lt by (intro mod_less) arith
  finally show ?thesis unfolding and_not_7 by simp
qed

text \<open>Without wrap-around, \<open>align\<close> rounds up to the next multiple of 8.\<close>

lemma align_unat:
  assumes "unat n + 7 < 18446744073709551616"
  shows "unat (align n) = 8 * ((unat n + 7) div 8)"
proof -
  have "unat (n + 7) = unat n + 7"
    using assms by (simp add: unat_word_ariths)
  then show ?thesis
    unfolding align_def ALIGNMENT_def using and_not_7_unat [of "n + 7"] by simp
qed



lemma set_size_same: "set_size s b (size_m (hdrs s b)) = s"
  by (simp add: set_size_def)


text \<open>Casts between \<open>int\<close>, \<open>long\<close> and \<open>unsigned int\<close>.\<close>

lemma ucast_scast_32: "(ucast (scast (x :: 32 word) :: 64 word) :: 32 word) = x"
  by (rule bit_word_eqI) (auto simp add: bit_simps)

lemma uint_ucast_32: "uint (ucast (x :: 32 word) :: 64 word) = uint x"
  by (simp add: uint_up_ucast is_up)

lemma ucast_minus_1_32: "(ucast (- 1 :: 64 word) :: 32 word) = - 1"
  by (rule bit_word_eqI) (simp add: bit_simps)

lemma scast_minus_1_iff: "(scast (x :: 32 word) :: 64 word) = - 1 \<longleftrightarrow> x = - 1"
proof
  assume "(scast x :: 64 word) = - 1"
  then have "(ucast (scast x :: 64 word) :: 32 word) = ucast (- 1 :: 64 word)" by simp
  then show "x = - 1" unfolding ucast_scast_32 ucast_minus_1_32 .
next
  assume "x = - 1" then show "(scast x :: 64 word) = - 1" by simp
qed

text \<open>No function but \<open>coalesce\<close> crashes inside \<open>coalesce\<close>.\<close>

lemma nc_Inr: "nc (Inr x)" by (simp add: nc_def)
lemma nc_Fatal: "nc (Inl (Fatal m))" by (simp add: nc_def)
lemma nc_Hang: "nc (Inl Hang)" by (simp add: nc_def)
lemma nc_Crash: "fn \<noteq> ''coalesce'' \<Longrightarrow> nc (Inl (Crash fn a))" by (simp add: nc_def)
lemma nc_if: "nc a \<Longrightarrow> nc b \<Longrightarrow> nc (if c then a else b)" by simp
lemma nc_bind: "nc m \<Longrightarrow> (\<And>x. nc (f x)) \<Longrightarrow> nc (bind_e m f)"
  by (cases m) (auto simp: bind_e_def nc_def)
lemma nc_chk: "fn \<noteq> ''coalesce'' \<Longrightarrow> nc k \<Longrightarrow> nc (chk fn s p k)"
  by (simp add: chk_def nc_def)
lemma nc_prod: "(\<And>a b. nc (f a b)) \<Longrightarrow> nc (case x of (a, b) \<Rightarrow> f a b)"
  by (cases x) simp
lemma nc_let: "nc (f x) \<Longrightarrow> nc (Let x f)" by simp

lemmas nc_intros = nc_Inr nc_Fatal nc_Hang nc_Crash nc_if nc_bind nc_chk nc_prod nc_let

lemma nc_memcpy: "fn \<noteq> ''coalesce'' \<Longrightarrow> nc (memcpy fn s d p n)"
  unfolding memcpy_def by (intro nc_intros) simp_all

lemma nc_preallocate: "nc (preallocate s sz)"
  unfolding preallocate_def by (intro nc_intros) simp_all

lemma nc_request_mmap: "nc (request_mmap s sz)"
  unfolding request_mmap_def by (intro nc_intros) simp_all

lemma nc_try_split: "nc (try_split s b sz)"
  unfolding try_split_def by (intro nc_intros) simp_all

lemma nc_expand_last: "nc (expand_last s sz)"
  unfolding expand_last_def by (intro nc_intros) simp_all

lemma nc_create_new_block: "nc (create_new_block s sz)"
  unfolding create_new_block_def by (intro nc_intros) simp_all

lemma nc_find_best_block_loop:
  "find_best_block_loop s sz bs bb blk = Some r \<Longrightarrow> nc r"
proof (erule find_best_block_loop.raw_induct [rotated], goal_cases)
  case (1 f s sz bs bb blk r)
  then show ?case
    by (auto split: if_splits simp: nc_Inr nc_Crash)
qed

lemma nc_os_malloc: "nc (os_malloc s n)"
proof -
  have "e \<noteq> Crash ''coalesce'' a" if "find_best_block s (align n) = Some (Inl e)" for e a
    using nc_find_best_block_loop [of s "align n" MMAP_THRESHOLD 0 "global_base s" "Inl e"] that
    by (simp add: find_best_block_def nc_def)
  moreover have "try_split s b sz \<noteq> Inl (Crash ''coalesce'' a)" for b sz a
    using nc_try_split [of s b sz] by (simp add: nc_def)
  moreover have "expand_last s sz \<noteq> Inl (Crash ''coalesce'' a)" for sz a
    using nc_expand_last [of s sz] by (simp add: nc_def)
  moreover have "create_new_block s sz \<noteq> Inl (Crash ''coalesce'' a)" for sz a
    using nc_create_new_block [of s sz] by (simp add: nc_def)
  moreover have "preallocate s sz \<noteq> Inl (Crash ''coalesce'' a)" for sz a
    using nc_preallocate [of s sz] by (simp add: nc_def)
  moreover have "request_mmap s sz \<noteq> Inl (Crash ''coalesce'' a)" for sz a
    using nc_request_mmap [of s sz] by (simp add: nc_def)
  ultimately show ?thesis
    by (auto simp: os_malloc_def nc_def chk_def Let_def split: option.splits sum.splits)
qed

lemma nc_free_prev: "nc (free_prev s b p n)"
  unfolding free_prev_def by (intro nc_intros) simp_all

lemma nc_free_next: "nc (free_next s b n)"
  unfolding free_next_def by (intro nc_intros) simp_all

lemma nc_os_free: "nc (os_free s p)"
  unfolding os_free_def by (intro nc_intros nc_free_prev nc_free_next) simp_all

lemma nc_split_realloc: "nc (split_realloc s b p n)"
  unfolding split_realloc_def
  by (intro nc_intros nc_os_malloc nc_os_free nc_memcpy) simp_all

lemma nc_realloc_move: "nc (realloc_move s b p n)"
  unfolding realloc_move_def
  by (intro nc_intros nc_os_malloc nc_os_free nc_memcpy) simp_all

lemma coalesce_not_null:
  assumes "valid_hdr s b" "next_m (hdrs s b) \<noteq> 0"
  shows "coalesce s b \<noteq> Inl (Crash ''coalesce'' 0)"
  using assms
  by (auto simp: coalesce_def chk_def bind_e_def Let_def)

lemma coalesce_null:
  assumes "valid_hdr s b" "next_m (hdrs s b) = 0"
  shows "coalesce s b = Inl (Crash ''coalesce'' 0)"
  using assms by (simp add: coalesce_def chk_def valid_hdr_def valid_range_def)

section \<open>Properties of the public operations\<close>

text \<open>
  C1. Stated: after every public operation no two adjacent entries of the Block
  Directory are both Free; in particular the shrink-with-split path of resize never
  leaves the new Free suffix next to a Free successor. The code does not keep this:
  \<open>split_realloc\<close> links the new Free block in front of the successor without looking
  at the successor's status. After \<open>a = malloc(4000); b = malloc(100); c = malloc(100);
  free(b); realloc(a, 16)\<close> the directory holds the Free suffix of \<open>a\<close> (3952 bytes)
  directly followed by the Free block \<open>b\<close>.
\<close>

theorem split_realloc_leaves_adjacent_free:
  "\<exists>s ps. run [Malloc 4000, Malloc 100, Malloc 100, Free 1, Realloc 0 16] (init_state, [])
            = Inr (s, ps)
     \<and> ps = [0x10000020, 0x10020020, 0x100200A8, 0x10000020]
     \<and> dir_is s (global_base s)
          [(0x10000000, 16, 1), (0x10000030, 3952, 0), (0x10020000, 104, 0),
           (0x10020088, 104, 1)]
     \<and> adjacent_free
          [(0x10000000, 16, 1), (0x10000030, 3952, 0), (0x10020000, 104, 0),
           (0x10020088, 104, 1)]"
  by (simp add: model_defs)

text \<open>
  C2. Stated: the best-fit scan considers every Free block whose size is at least
  the rounded request, with no upper bound, so that a released block is reused by a
  following request that fits. The code starts the scan with
  \<open>best_fit_size = MMAP_THRESHOLD\<close> and replaces only on a strictly smaller size, so a
  Free block of 128 KiB or more is never selected. After \<open>a = malloc(70000);
  b = malloc(70000); c = malloc(8); free(a); free(b)\<close> the directory holds one Free
  block of 140032 bytes; \<open>find_best_block\<close> for 70000 bytes returns \<open>NULL\<close>, and
  \<open>malloc(70000)\<close> appends a new block at the top of the heap, which grows.
\<close>

theorem find_best_block_skips_large_free:
  "\<exists>s ps. run [Malloc 70000, Malloc 70000, Malloc 8, Free 0, Free 1] (init_state, [])
            = Inr (s, ps)
     \<and> ps = [0x10000020, 0x10020020, 0x100311B0]
     \<and> dir_is s (global_base s) [(0x10000000, 140032, 0), (0x10031190, 8, 1)]
     \<and> brk s = 0x100311B8
     \<and> find_best_block s (align 70000) = Some (Inr 0)
     \<and> (\<exists>s'. os_malloc s 70000 = Inr (s', 0x100311D8)
           \<and> dir_is s' (global_base s')
                [(0x10000000, 140032, 0), (0x10031190, 8, 1), (0x100311B8, 70000, 1)]
           \<and> brk s' = 0x10042348)"
  by (simp add: model_defs)

text \<open>
  C3. Stated: growing a MappedAllocated block relocates it and never extends the
  heap region on its behalf. The code tests \<open>block->next == NULL\<close> before anything
  else; a mapped block keeps the zero links of its fresh mapping, so it is taken for
  the directory tail: \<open>last\<close> is set to the mapped block and \<open>expand_last\<close> calls
  \<open>sbrk\<close>. After \<open>p = malloc(200000)\<close>, \<open>realloc(p, 300000)\<close> asks \<open>sbrk\<close> for the
  distance from the heap top to the end of the mapped block: the process dies with
  "sbrk failed" when the OS refuses, and otherwise the same pointer comes back, the
  mapped block is marked 1 (heap-allocated) and the heap top is moved behind it.
\<close>

theorem realloc_grow_mapped_expands_heap:
  "\<exists>s ps. run [Malloc 200000] (init_state, []) = Inr (s, ps)
     \<and> ps = [0x7f0000000020]
     \<and> size_m (hdrs s 0x7f0000000000) = 200000 \<and> status (hdrs s 0x7f0000000000) = 2
     \<and> maps s = [(0x7f0000000000, 200032)] \<and> global_base s = 0 \<and> brk s = 0x10000000
     \<and> os_realloc s 0x7f0000000020 300000 = Inl (Fatal ''sbrk failed'')
     \<and> (\<exists>s'. os_realloc (s\<lparr>brk_max := 0x7f8000000000\<rparr>) 0x7f0000000020 300000
                 = Inr (s', 0x7f0000000020)
           \<and> last_g s' = 0x7f0000000000 \<and> brk s' = 0x7F0000049400
           \<and> size_m (hdrs s' 0x7f0000000000) = 300000
           \<and> status (hdrs s' 0x7f0000000000) = 1
           \<and> maps s' = [(0x7f0000000000, 200032)] \<and> global_base s' = 0)"
  by (simp add: model_defs)

text \<open>
  C4. Stated: every failure of an OS primitive is fatal (diagnostic, exit) at
  every call site, the mapping path of \<open>os_calloc\<close> included. \<open>request_mmap\<close> checks the
  result of \<open>mmap\<close> with \<open>DIE\<close>; \<open>os_calloc\<close> does not: it writes the header through
  \<open>MAP_FAILED\<close>. With the mapping area exhausted, \<open>calloc(1, 5000)\<close> crashes on the
  pointer \<open>(void *)-1\<close>, where \<open>malloc(200000)\<close> dies with "mmap failed".
\<close>

theorem calloc_mmap_failure_not_fatal:
  "os_calloc (init_state\<lparr>mmap_end := mmap_cur init_state\<rparr>) 1 5000
     = Inl (Crash ''os_calloc'' (- 1))
   \<and> os_malloc (init_state\<lparr>mmap_end := mmap_cur init_state\<rparr>) 200000
     = Inl (Fatal ''mmap failed'')"
  by (simp add: model_defs)

text \<open>
  C5. Stated: for every previously allocated pointer, heap-backed or mapped, a
  second release is a no-op that does not crash and leaves the state unchanged. The
  code returns early only when the header at \<open>ptr - 1\<close> has status 0. A block that the
  first release merged into its Free predecessor keeps status 1 in its old header:
  after \<open>a = malloc(100); b = malloc(100); free(a); free(b)\<close> the directory is one Free
  block of 240 bytes, and a second \<open>free(b)\<close> adds \<open>b\<close> to it again (376 bytes). A mapped
  block is unmapped by the first release, and the second one reads its header in
  memory that is no longer mapped.
\<close>

theorem double_free_not_noop:
  "(\<exists>s ps. run [Malloc 100, Malloc 100, Free 0, Free 1] (init_state, []) = Inr (s, ps)
      \<and> ps = [0x10000020, 0x10020020]
      \<and> dir_is s (global_base s) [(0x10000000, 240, 0)]
      \<and> (\<exists>s'. os_free s 0x10020020 = Inr s'
            \<and> dir_is s' (global_base s') [(0x10000000, 376, 0)]))
   \<and> (\<exists>s ps. run [Malloc 200000, Free 0] (init_state, []) = Inr (s, ps)
      \<and> ps = [0x7f0000000020] \<and> maps s = []
      \<and> os_free s 0x7f0000000020 = Inl (Crash ''os_free'' 0x7f0000000000))"
  by (simp add: model_defs)

text \<open>
  C6. Stated: shrinking a MappedAllocated block always relocates it and never
  shrinks it in place by adjusting its size field. In \<open>split_realloc\<close> the test
  \<open>(int)remaining_size <= 0\<close> comes before the test of the status: when the rounded
  new size is within a header of the current size, the size field is overwritten and
  the same pointer returned, for a mapped block too. After \<open>p = malloc(200000)\<close>,
  \<open>realloc(p, 199990)\<close> returns \<open>p\<close>; the block is still mapped with its 200032 bytes
  and status 2, its size field says 199992, and nothing was allocated.
\<close>

theorem realloc_shrink_mapped_in_place:
  "\<exists>s ps. run [Malloc 200000, Realloc 0 199990] (init_state, []) = Inr (s, ps)
     \<and> ps = [0x7f0000000020, 0x7f0000000020]
     \<and> size_m (hdrs s 0x7f0000000000) = 199992 \<and> status (hdrs s 0x7f0000000000) = 2
     \<and> maps s = [(0x7f0000000000, 200032)] \<and> global_base s = 0
     \<and> brk s = brk init_state"
  by (simp add: model_defs)

text \<open>
  C7. For every allocated (non-Free) block and every new size whose rounding up to a
  multiple of 8 equals the block's current size, \<open>os_realloc\<close> returns the same pointer,
  whether or not the new size equals the current size before rounding; the state is
  left as it was.
\<close>

theorem realloc_same_rounded_size:
  assumes p: "p \<noteq> 0" and n: "n \<noteq> 0"
    and v: "valid_hdr s (p - META_SIZE)"
    and st: "status (hdrs s (p - META_SIZE)) \<noteq> 0"
    and r: "8 * ((unat n + 7) div 8) = unat (size_m (hdrs s (p - META_SIZE)))"
  shows "os_realloc s p n = Inr (s, p)"
proof -
  let ?b = "p - META_SIZE"
  have lt: "unat (size_m (hdrs s ?b)) < 18446744073709551616" by (rule unat_lt64)
  have nw: "unat n + 7 < 18446744073709551616" using r lt by arith
  have al: "align n = size_m (hdrs s ?b)"
    using align_unat [OF nw] r by (simp add: word_unat_eq_iff)
  have le: "n \<le> size_m (hdrs s ?b)"
    using r by (simp add: word_le_nat_alt)
  have rem: "sint (ucast (size_m (hdrs s ?b) - align n - META_SIZE) :: 32 word) \<le> 0"
    by (simp add: al META_SIZE_def)
  show ?thesis
  proof (cases "n = size_m (hdrs s ?b)")
    case True
    with p n v st show ?thesis by (simp add: os_realloc_def chk_def Let_def)
  next
    case False
    with le have "n < size_m (hdrs s ?b)" by simp
    with p n v st False rem show ?thesis
      by (simp add: os_realloc_def split_realloc_def chk_def Let_def al set_size_same)
  qed
qed

theorem realloc_same_rounded_size_witness:
  "ptrs_after [Malloc 100] ! 0 = 0x10000020
   \<and> (0x10000020 :: addr) \<noteq> 0 \<and> (97 :: size_t) \<noteq> 0
   \<and> valid_hdr (state_after [Malloc 100]) (0x10000020 - META_SIZE)
   \<and> status (hdrs (state_after [Malloc 100]) (0x10000020 - META_SIZE)) \<noteq> 0
   \<and> 8 * ((unat (97 :: size_t) + 7) div 8)
       = unat (size_m (hdrs (state_after [Malloc 100]) (0x10000020 - META_SIZE)))
   \<and> os_realloc (state_after [Malloc 100]) 0x10000020 97
       = Inr (state_after [Malloc 100], 0x10000020)"
  using realloc_same_rounded_size [of "0x10000020" 97 "state_after [Malloc 100]"]
  by (simp add: model_defs)




text \<open>
  C9. For every count and element size, both nonzero, \<open>os_calloc\<close> decides by the page
  size and not by the 128 KiB threshold. With \<open>tsz\<close> the product rounded up to 8 in
  \<open>size_t\<close> arithmetic (and header + \<open>tsz\<close> not wrapping around): if header + \<open>tsz\<close>
  exceeds the page size and the OS grants the mapping, the request is served by a new
  mapping of header + \<open>tsz\<close> bytes, marked 2 (MappedAllocated), with a zero-filled
  payload, and the directory (both globals, the heap top, every header outside the new
  mapping) is untouched; otherwise the result is that of \<open>os_malloc\<close> for \<open>tsz\<close> with
  the returned payload zero-filled.
\<close>

theorem calloc_page_threshold:
  assumes nz: "nmemb \<noteq> 0" "sz \<noteq> 0"
    and pg: "getpagesize s \<noteq> - 1"
    and tot: "tsz = align (nmemb * sz)"
    and nw: "unat tsz + 32 < 18446744073709551616"
  shows "(uint (getpagesize s) < uint tsz + 32 \<and> snd (mmap_anon s (tsz + META_SIZE)) \<noteq> - 1 \<longrightarrow>
           (\<exists>s'. os_calloc s nmemb sz = Inr (s', mmap_cur s + META_SIZE)
              \<and> maps s' = (mmap_cur s, tsz + META_SIZE) # maps s
              \<and> size_m (hdrs s' (mmap_cur s)) = tsz \<and> status (hdrs s' (mmap_cur s)) = 2
              \<and> (\<forall>a. a - (mmap_cur s + META_SIZE) < tsz \<longrightarrow> bytes s' a = 0)
              \<and> global_base s' = global_base s \<and> last_g s' = last_g s \<and> brk s' = brk s
              \<and> (\<forall>a. \<not> in_region a META_SIZE (mmap_cur s) (tsz + META_SIZE)
                     \<longrightarrow> hdrs s' a = hdrs s a)))
       \<and> (\<not> uint (getpagesize s) < uint tsz + 32 \<longrightarrow>
            os_calloc s nmemb sz =
              (case os_malloc s tsz of
                 Inl e \<Rightarrow> Inl e
               | Inr (s1, p) \<Rightarrow>
                   if p = 0 then Inr (s1, 0)
                   else if tsz \<noteq> 0 \<and> \<not> valid_range s1 p tsz then Inl (Crash ''os_calloc'' p)
                   else Inr (s1\<lparr>bytes := (\<lambda>a. if a - p < tsz then 0 else bytes s1 a)\<rparr>, p)))"
proof -
  let ?len = "tsz + META_SIZE"
  have ulen: "uint ?len = uint tsz + 32"
  proof -
    have "unat (tsz + 32) = unat tsz + 32" using nw by (simp add: unat_word_ariths)
    then have "int (unat (tsz + 32)) = int (unat tsz + 32)" by (simp only:)
    then show ?thesis by (simp add: META_SIZE_def)
  qed
  have pgc: "(ucast (ucast (scast (getpagesize s) :: 64 word) :: 32 word) :: 64 word) < ?len
              \<longleftrightarrow> uint (getpagesize s) < uint tsz + 32"
    unfolding ucast_scast_32 by (simp add: word_less_def uint_ucast_32 ulen)
  have pg1: "(scast (getpagesize s) :: 64 word) \<noteq> - 1"
    using pg by (simp add: scast_minus_1_iff)
  have B: "os_calloc s nmemb sz =
              (case os_malloc s tsz of
                 Inl e \<Rightarrow> Inl e
               | Inr (s1, p) \<Rightarrow>
                   if p = 0 then Inr (s1, 0)
                   else if tsz \<noteq> 0 \<and> \<not> valid_range s1 p tsz then Inl (Crash ''os_calloc'' p)
                   else Inr (s1\<lparr>bytes := (\<lambda>a. if a - p < tsz then 0 else bytes s1 a)\<rparr>, p))"
    if "\<not> uint (getpagesize s) < uint tsz + 32"
    using that nz pg1 pgc unfolding os_calloc_def tot [symmetric] Let_def
    by (auto simp add: bind_e_def memset_def split: sum.splits)
  have A: "\<exists>s'. os_calloc s nmemb sz = Inr (s', mmap_cur s + META_SIZE)
              \<and> maps s' = (mmap_cur s, tsz + META_SIZE) # maps s
              \<and> size_m (hdrs s' (mmap_cur s)) = tsz \<and> status (hdrs s' (mmap_cur s)) = 2
              \<and> (\<forall>a. a - (mmap_cur s + META_SIZE) < tsz \<longrightarrow> bytes s' a = 0)
              \<and> global_base s' = global_base s \<and> last_g s' = last_g s \<and> brk s' = brk s
              \<and> (\<forall>a. \<not> in_region a META_SIZE (mmap_cur s) (tsz + META_SIZE)
                     \<longrightarrow> hdrs s' a = hdrs s a)"
    if big: "uint (getpagesize s) < uint tsz + 32" and ok: "snd (mmap_anon s ?len) \<noteq> - 1"
  proof -
    let ?a = "mmap_cur s"
    from ok have c: "?len \<noteq> 0" "?a \<noteq> 0" "uint ?a + uint ?len \<le> uint (mmap_end s)"
      by (auto simp: mmap_anon_def split: if_splits)
    have me: "uint (mmap_end s) < 18446744073709551616"
      using uint_lt2p [of "mmap_end s"] by simp
    define s1 where "s1 = s\<lparr>maps := (?a, ?len) # maps s, mmap_cur := ?a + ?len,
        hdrs := (\<lambda>x. if in_region x META_SIZE ?a ?len then zero_meta else hdrs s x),
        bytes := (\<lambda>x. if in_region x 1 ?a ?len then 0 else bytes s x)\<rparr>"
    have m: "mmap_anon s ?len = (s1, ?a)"
      using c by (simp add: mmap_anon_def s1_def)
    have ms: "maps s1 = (?a, ?len) # maps s" by (simp add: s1_def)
    have ina: "in_region ?a META_SIZE ?a ?len"
      using ulen by (simp add: in_region_def META_SIZE_def)
    have v: "valid_hdr s1 ?a"
      using c(2) ina by (simp add: valid_hdr_def valid_range_def ms)
    have ua: "uint (?a + META_SIZE) = uint ?a + 32"
    proof -
      have "0 \<le> uint tsz" by simp
      with c(3) ulen me have "uint ?a + 32 < 18446744073709551616" by arith
      then have "uint ?a + uint (32 :: 64 word) < 2 ^ LENGTH(64)" by simp
      then have "uint (?a + 32) = uint ?a + uint (32 :: 64 word)"
        by (simp only: uint_add_lem)
      then show ?thesis by (simp add: META_SIZE_def)
    qed
    have a32: "?a + META_SIZE \<noteq> 0"
    proof
      assume "?a + META_SIZE = 0"
      then have "uint (?a + META_SIZE) = 0" by simp
      with ua show False using uint_ge_0 [of ?a] by arith
    qed
    have inp: "in_region (?a + META_SIZE) tsz ?a ?len"
      using ua ulen by (simp add: in_region_def)
    define s2 where "s2 = set_status (set_size s1 ?a tsz) ?a 2"
    have ms2: "maps s2 = maps s1" by (simp add: s2_def set_size_def set_status_def)
    have vr: "valid_range s2 (?a + META_SIZE) tsz"
      using a32 inp by (simp add: valid_range_def ms ms2)
    define s3 where "s3 = s2\<lparr>bytes := (\<lambda>x. if x - (?a + META_SIZE) < tsz then 0 else bytes s2 x)\<rparr>"
    have bs: "bytes (set_status (set_size s1 ?a tsz) ?a 2) = bytes s2" by (simp add: s2_def)
    have res: "os_calloc s nmemb sz = Inr (s3, ?a + META_SIZE)"
      using big nz pg1 pgc v vr unfolding os_calloc_def tot [symmetric] Let_def m
      by (simp add: chk_def bind_e_def memset_def bs s2_def [symmetric] s3_def cong: if_cong)
    have props: "maps s3 = (?a, ?len) # maps s"
      "size_m (hdrs s3 ?a) = tsz" "status (hdrs s3 ?a) = 2"
      "\<forall>x. x - (?a + META_SIZE) < tsz \<longrightarrow> bytes s3 x = 0"
      "global_base s3 = global_base s" "last_g s3 = last_g s" "brk s3 = brk s"
      "\<forall>x. \<not> in_region x META_SIZE ?a ?len \<longrightarrow> hdrs s3 x = hdrs s x"
      using ina by (auto simp add: s3_def s2_def s1_def set_size_def set_status_def)
    show ?thesis using res props by blast
  qed
  show ?thesis using A B by blast
qed

theorem calloc_page_threshold_witness:
  "(1 :: size_t) \<noteq> 0 \<and> (5000 :: size_t) \<noteq> 0 \<and> getpagesize init_state \<noteq> - 1
   \<and> (5000 :: size_t) = align (1 * 5000)
   \<and> unat (5000 :: size_t) + 32 < 18446744073709551616
   \<and> uint (getpagesize init_state) < uint (5000 :: size_t) + 32
   \<and> snd (mmap_anon init_state (5000 + META_SIZE)) \<noteq> - 1
   \<and> (\<exists>s'. os_calloc init_state 1 5000 = Inr (s', 0x7f0000000020)
          \<and> status (hdrs s' 0x7f0000000000) = 2
          \<and> global_base s' = 0 \<and> last_g s' = 0 \<and> brk s' = brk init_state)
   \<and> (10 :: size_t) \<noteq> 0 \<and> (8 :: size_t) \<noteq> 0
   \<and> (80 :: size_t) = align (10 * 8) \<and> unat (80 :: size_t) + 32 < 18446744073709551616
   \<and> \<not> uint (getpagesize init_state) < uint (80 :: size_t) + 32
   \<and> (\<exists>s'. os_calloc init_state 10 8 = Inr (s', 0x10000020)
          \<and> status (hdrs s' 0x10000000) = 1 \<and> maps s' = [])"
  using calloc_page_threshold [of 1 5000 init_state 5000]
    calloc_page_threshold [of 10 8 init_state 80]
  by (simp add: model_defs)

text \<open>
  C10. \<open>coalesce\<close> reads \<open>block->next->status\<close> before it compares \<open>block->next\<close> with
  \<open>NULL\<close>: called on a block whose \<open>next\<close> is \<open>NULL\<close> it dereferences the null pointer.
  Its only caller is the grow path of \<open>os_realloc\<close>, which has handled
  \<open>block->next == NULL\<close> before: no call of \<open>os_realloc\<close> ends in that null
  dereference.
\<close>

theorem coalesce_null_unreachable:
  "os_realloc s p n \<noteq> Inl (Crash ''coalesce'' 0)
   \<and> (valid_hdr s' b \<and> next_m (hdrs s' b) = 0
        \<longrightarrow> coalesce s' b = Inl (Crash ''coalesce'' 0))"
proof -
  have m: "os_malloc s n \<noteq> Inl (Crash ''coalesce'' 0)" for s n
    using nc_os_malloc [of s n] by (simp add: nc_def)
  have f: "os_free s p \<noteq> Inl (Crash ''coalesce'' 0)" for s p
    using nc_os_free [of s p] by (simp add: nc_def)
  have sr: "split_realloc s b p n \<noteq> Inl (Crash ''coalesce'' 0)" for s b p n
    using nc_split_realloc [of s b p n] by (simp add: nc_def)
  have rm: "realloc_move s b p n \<noteq> Inl (Crash ''coalesce'' 0)" for s b p n
    using nc_realloc_move [of s b p n] by (simp add: nc_def)
  have el: "expand_last s n \<noteq> Inl (Crash ''coalesce'' 0)" for s n
    using nc_expand_last [of s n] by (simp add: nc_def)
  have "os_realloc s p n \<noteq> Inl (Crash ''coalesce'' 0)"
    unfolding os_realloc_def
    apply (simp add: m Let_def chk_def bind_e_def el sr split: sum.splits)
    apply (auto simp: f sr rm dest: coalesce_not_null)
    done
  then show ?thesis using coalesce_null [of s' b] by simp
qed

theorem coalesce_null_unreachable_witness:
  "valid_hdr (state_after [Malloc 16]) 0x10000000
   \<and> next_m (hdrs (state_after [Malloc 16]) 0x10000000) = 0
   \<and> coalesce (state_after [Malloc 16]) 0x10000000 = Inl (Crash ''coalesce'' 0)
   \<and> os_realloc (state_after [Malloc 16]) 0x10000020 200 \<noteq> Inl (Crash ''coalesce'' 0)"
  using coalesce_null_unreachable [of "state_after [Malloc 16]" "0x10000020" 200
      "state_after [Malloc 16]" "0x10000000"]
  by (simp add: model_defs)

section \<open>Further properties\<close>

text \<open>
  Best fit below the threshold. On a \<open>NULL\<close>-terminated directory of accessible headers
  \<open>find_best_block\<close> ends. If no Free block of at least \<open>sz\<close> and less than 128 KiB
  exists it returns \<open>NULL\<close>; otherwise it returns a Free block that is smaller than
  every fitting Free block before it and not larger than any fitting Free block after
  it: the smallest, and among equals the first in address order.
\<close>

lemma find_best_block_loop_scan:
  assumes "dir_is s a bs" "list_all (\<lambda>x. valid_hdr s (fst x)) bs"
  shows "find_best_block_loop s sz best bb a = Some (Inr (best_fit_scan bs sz best bb))"
  using assms
proof (induction bs arbitrary: a best bb)
  case Nil
  then show ?case by (simp add: find_best_block_loop.simps)
next
  case (Cons x bs)
  obtain b m st where x: "x = (b, m, st)" by (cases x)
  from Cons.prems x have a: "a = b" "a \<noteq> 0" "size_m (hdrs s a) = m" "status (hdrs s a) = st"
    and d: "dir_is s (next_m (hdrs s a)) bs" and v: "valid_hdr s a"
    and vs: "list_all (\<lambda>x. valid_hdr s (fst x)) bs"
    by auto
  show ?case
    apply (subst find_best_block_loop.simps)
    using a v Cons.IH [OF d vs] by (simp add: x)
qed

lemma best_fit_scan_spec:
  "(\<not> list_ex (fits_below best sz) bs \<longrightarrow> best_fit_scan bs sz best bb = bb) \<and>
   (list_ex (fits_below best sz) bs \<longrightarrow>
      (\<exists>ys x zs. bs = ys @ x # zs \<and> fits_below best sz x
         \<and> best_fit_scan bs sz best bb = fst x
         \<and> (\<forall>y\<in>set ys. free_fit sz y \<longrightarrow> fst (snd x) < fst (snd y))
         \<and> (\<forall>z\<in>set zs. free_fit sz z \<longrightarrow> fst (snd x) \<le> fst (snd z))))"
proof (induction bs arbitrary: best bb)
  case Nil
  then show ?case by simp
next
  case (Cons h bs)
  obtain a m st where h: "h = (a, m, st)" by (cases h)
  show ?case
  proof (cases "fits_below best sz h")
    case True
    then have c: "st = 0" "sz \<le> m" "m < best" by (auto simp: h fits_below_def free_fit_def)
    then have sc: "best_fit_scan (h # bs) sz best bb = best_fit_scan bs sz m a" by (simp add: h)
    show ?thesis
    proof (cases "list_ex (fits_below m sz) bs")
      case False
      with Cons.IH [of m a] have r: "best_fit_scan bs sz m a = a" by simp
      from False have "\<forall>z\<in>set bs. free_fit sz z \<longrightarrow> m \<le> fst (snd z)"
        by (auto simp: list_ex_iff fits_below_def)
      then have "h # bs = [] @ h # bs \<and> fits_below best sz h
         \<and> best_fit_scan (h # bs) sz best bb = fst h
         \<and> (\<forall>y\<in>set []. free_fit sz y \<longrightarrow> fst (snd h) < fst (snd y))
         \<and> (\<forall>z\<in>set bs. free_fit sz z \<longrightarrow> fst (snd h) \<le> fst (snd z))"
        using True sc r by (simp add: h)
      then have W: "\<exists>ys x zs. h # bs = ys @ x # zs \<and> fits_below best sz x
         \<and> best_fit_scan (h # bs) sz best bb = fst x
         \<and> (\<forall>y\<in>set ys. free_fit sz y \<longrightarrow> fst (snd x) < fst (snd y))
         \<and> (\<forall>z\<in>set zs. free_fit sz z \<longrightarrow> fst (snd x) \<le> fst (snd z))"
        by blast
      have E: "list_ex (fits_below best sz) (h # bs)" using True by simp
      show ?thesis using E W by blast
    next
      case ex: True
      with Cons.IH [of m a] obtain ys x zs where
        d: "bs = ys @ x # zs" and fx: "fits_below m sz x"
        and r: "best_fit_scan bs sz m a = fst x"
        and ys: "\<forall>y\<in>set ys. free_fit sz y \<longrightarrow> fst (snd x) < fst (snd y)"
        and zs: "\<forall>z\<in>set zs. free_fit sz z \<longrightarrow> fst (snd x) \<le> fst (snd z)"
        by blast
      have fx': "fits_below best sz x" using fx c by (auto simp: fits_below_def)
      have hx: "fst (snd x) < fst (snd h)" using fx by (simp add: fits_below_def h)
      have "h # bs = (h # ys) @ x # zs \<and> fits_below best sz x
         \<and> best_fit_scan (h # bs) sz best bb = fst x
         \<and> (\<forall>y\<in>set (h # ys). free_fit sz y \<longrightarrow> fst (snd x) < fst (snd y))
         \<and> (\<forall>z\<in>set zs. free_fit sz z \<longrightarrow> fst (snd x) \<le> fst (snd z))"
        using d fx' sc r ys zs hx by simp
      then have W: "\<exists>ys x zs. h # bs = ys @ x # zs \<and> fits_below best sz x
         \<and> best_fit_scan (h # bs) sz best bb = fst x
         \<and> (\<forall>y\<in>set ys. free_fit sz y \<longrightarrow> fst (snd x) < fst (snd y))
         \<and> (\<forall>z\<in>set zs. free_fit sz z \<longrightarrow> fst (snd x) \<le> fst (snd z))"
        by blast
      have E: "list_ex (fits_below best sz) (h # bs)" using True by simp
      show ?thesis using E W by blast
    qed
  next
    case False
    then have sc: "best_fit_scan (h # bs) sz best bb = best_fit_scan bs sz best bb"
      by (auto simp: h fits_below_def free_fit_def)
    show ?thesis
    proof (cases "list_ex (fits_below best sz) bs")
      case nex: False
      with Cons.IH [of best bb] False sc show ?thesis by simp
    next
      case ex: True
      with Cons.IH [of best bb] obtain ys x zs where
        d: "bs = ys @ x # zs" and fx: "fits_below best sz x"
        and r: "best_fit_scan bs sz best bb = fst x"
        and ys: "\<forall>y\<in>set ys. free_fit sz y \<longrightarrow> fst (snd x) < fst (snd y)"
        and zs: "\<forall>z\<in>set zs. free_fit sz z \<longrightarrow> fst (snd x) \<le> fst (snd z)"
        by blast
      have hx: "free_fit sz h \<longrightarrow> fst (snd x) < fst (snd h)"
        using False fx by (auto simp: fits_below_def)
      have "h # bs = (h # ys) @ x # zs \<and> fits_below best sz x
         \<and> best_fit_scan (h # bs) sz best bb = fst x
         \<and> (\<forall>y\<in>set (h # ys). free_fit sz y \<longrightarrow> fst (snd x) < fst (snd y))
         \<and> (\<forall>z\<in>set zs. free_fit sz z \<longrightarrow> fst (snd x) \<le> fst (snd z))"
        using d fx sc r ys zs hx by simp
      then have W: "\<exists>ys x zs. h # bs = ys @ x # zs \<and> fits_below best sz x
         \<and> best_fit_scan (h # bs) sz best bb = fst x
         \<and> (\<forall>y\<in>set ys. free_fit sz y \<longrightarrow> fst (snd x) < fst (snd y))
         \<and> (\<forall>z\<in>set zs. free_fit sz z \<longrightarrow> fst (snd x) \<le> fst (snd z))"
        by blast
      have E: "list_ex (fits_below best sz) (h # bs)" using ex by simp
      show ?thesis using E W by blast
    qed
  qed
qed

theorem find_best_block_best_fit:
  assumes "dir_is s (global_base s) bs" and "list_all (\<lambda>x. valid_hdr s (fst x)) bs"
  shows "(\<not> list_ex (fits_below MMAP_THRESHOLD sz) bs \<longrightarrow> find_best_block s sz = Some (Inr 0)) \<and>
         (list_ex (fits_below MMAP_THRESHOLD sz) bs \<longrightarrow>
            (\<exists>ys x zs. bs = ys @ x # zs \<and> fits_below MMAP_THRESHOLD sz x
               \<and> find_best_block s sz = Some (Inr (fst x))
               \<and> (\<forall>y\<in>set ys. free_fit sz y \<longrightarrow> fst (snd x) < fst (snd y))
               \<and> (\<forall>z\<in>set zs. free_fit sz z \<longrightarrow> fst (snd x) \<le> fst (snd z))))"
  unfolding find_best_block_def find_best_block_loop_scan [OF assms]
  using best_fit_scan_spec [of MMAP_THRESHOLD sz bs 0] by simp

theorem find_best_block_best_fit_witness:
  "(let s = state_after [Malloc 100, Malloc 8, Malloc 100, Malloc 8, Free 0, Free 2];
        bs = [(0x10000000, 104, 0), (0x10020000, 8, 1), (0x10020028, 104, 0),
              (0x100200B0, 8, 1)]
    in dir_is s (global_base s) bs \<and> list_all (\<lambda>x. valid_hdr s (fst x)) bs
       \<and> list_ex (fits_below MMAP_THRESHOLD 104) bs
       \<and> find_best_block s 104 = Some (Inr 0x10000000))"
  using find_best_block_best_fit
    [of "state_after [Malloc 100, Malloc 8, Malloc 100, Malloc 8, Free 0, Free 2]"
        "[(0x10000000, 104, 0), (0x10020000, 8, 1), (0x10020028, 104, 0),
          (0x100200B0, 8, 1)]" 104]
  by (simp add: model_defs fits_below_def free_fit_def)

text \<open>
  Release order. Three adjacent allocated blocks of 104, 200 and 304 bytes between two
  allocated neighbours, released in any of the six orders, end as one Free block of
  104 + 200 + 304 bytes plus two headers.
\<close>

theorem free_three_any_order:
  "list_all (\<lambda>order.
      \<exists>s ps. run ([Malloc 16, Malloc 100, Malloc 200, Malloc 300, Malloc 16] @ order)
                (init_state, []) = Inr (s, ps)
        \<and> dir_is s (global_base s)
             [(0x10000000, 16, 1), (0x10020000, 672, 0), (0x100202C0, 16, 1)])
    [[Free 1, Free 2, Free 3], [Free 1, Free 3, Free 2], [Free 2, Free 1, Free 3],
     [Free 2, Free 3, Free 1], [Free 3, Free 1, Free 2], [Free 3, Free 2, Free 1]]"
  by (simp add: model_defs)

text \<open>
  Double release of a heap block. When the first release of a heap-allocated block
  does not merge it into a Free predecessor (there is no predecessor, or it is not
  Free), the block's own header gets status 0 and a second release of the same
  pointer returns at once: the state stays as the first release left it.
\<close>

lemma free_next_fields:
  assumes "free_next s b n = Inr s2"
  shows "brk s2 = brk s \<and> brk_min s2 = brk_min s \<and> maps s2 = maps s"
  using assms
  by (auto simp: free_next_def chk_def bind_e_def Let_def set_size_def set_next_def set_prev_def
      split: if_splits)

theorem free_twice_noop:
  assumes ok: "os_free s p = Inr s1" and p: "p \<noteq> 0"
    and st: "status (hdrs s (p - META_SIZE)) = 1"
    and np: "prev (hdrs s (p - META_SIZE)) = 0 \<or> status (hdrs s (prev (hdrs s (p - META_SIZE)))) \<noteq> 0"
  shows "os_free s1 p = Inr s1"
proof -
  let ?b = "p - META_SIZE"
  have v: "valid_hdr s ?b" using ok p by (auto simp: os_free_def chk_def Let_def split: if_splits)
  have fp: "free_prev s ?b (prev (hdrs s ?b)) (next_m (hdrs s ?b)) = Inr (s, ?b) 
        \<or> (\<exists>e. free_prev s ?b (prev (hdrs s ?b)) (next_m (hdrs s ?b)) = Inl e)"
    using np by (auto simp: free_prev_def chk_def)
  from ok p v st fp obtain s2 where s2: "free_next s ?b (next_m (hdrs s ?b)) = Inr s2"
    and s1: "s1 = set_status s2 ?b 0"
    by (auto simp: os_free_def chk_def Let_def bind_e_def split: sum.splits)
  have "valid_hdr s1 ?b"
    using free_next_fields [OF s2] v by (simp add: s1 valid_hdr_def valid_range_def set_status_def)
  moreover have "status (hdrs s1 ?b) = 0" by (simp add: s1 set_status_def)
  ultimately show ?thesis using p by (simp add: os_free_def chk_def Let_def)
qed

theorem free_twice_noop_witness:
  "(let s = state_after [Malloc 100, Malloc 100]; p = 0x10020020;
        s1 = set_status s (p - META_SIZE) 0
    in os_free s p = Inr s1 \<and> p \<noteq> 0 \<and> status (hdrs s (p - META_SIZE)) = 1
       \<and> prev (hdrs s (p - META_SIZE)) = 0x10000000
       \<and> status (hdrs s (prev (hdrs s (p - META_SIZE)))) = 1
       \<and> os_free s1 p = Inr s1)"
  using free_twice_noop [of "state_after [Malloc 100, Malloc 100]" "0x10020020"
      "set_status (state_after [Malloc 100, Malloc 100]) (0x10020020 - META_SIZE) 0"]
  by (simp add: model_defs)

text \<open>
  Growing a mapped block. For every block with status 2 whose \<open>next\<close> is \<open>NULL\<close> (as the
  fresh mapping leaves it) and every larger new size, \<open>os_realloc\<close> makes the block the
  global \<open>last\<close> and is \<open>expand_last\<close> for the rounded size.
\<close>

theorem realloc_grow_mapped_is_expand_last:
  assumes "p \<noteq> 0" and "valid_hdr s (p - META_SIZE)"
    and "status (hdrs s (p - META_SIZE)) = 2"
    and "next_m (hdrs s (p - META_SIZE)) = 0"
    and "size_m (hdrs s (p - META_SIZE)) < n"
  shows "os_realloc s p n = expand_last (s\<lparr>last_g := p - META_SIZE\<rparr>) (align n)"
proof -
  have "n \<noteq> 0" using assms(5) by (auto simp: word_less_nat_alt)
  moreover have "n \<noteq> size_m (hdrs s (p - META_SIZE))" "\<not> n < size_m (hdrs s (p - META_SIZE))"
    using assms(5) by auto
  ultimately show ?thesis using assms by (simp add: os_realloc_def chk_def Let_def)
qed

theorem realloc_grow_mapped_is_expand_last_witness:
  "(let s = state_after [Malloc 200000]; p = 0x7f0000000020
    in p \<noteq> 0 \<and> valid_hdr s (p - META_SIZE) \<and> status (hdrs s (p - META_SIZE)) = 2
       \<and> next_m (hdrs s (p - META_SIZE)) = 0 \<and> size_m (hdrs s (p - META_SIZE)) < 300000
       \<and> os_realloc s p 300000 = expand_last (s\<lparr>last_g := p - META_SIZE\<rparr>) (align 300000)
       \<and> os_realloc s p 300000 = Inl (Fatal ''sbrk failed''))"
  using realloc_grow_mapped_is_expand_last [of "0x7f0000000020" "state_after [Malloc 200000]"
      300000]
  by (simp add: model_defs)

text \<open>
  Shrinking in place. For every block that is not Free, mapped or not, and every
  smaller nonzero new size for which \<open>(int)(size - rounded new size - header)\<close> is not
  positive, \<open>os_realloc\<close> sets the size field to the rounded new size and returns the
  same pointer; nothing else changes.
\<close>

theorem realloc_shrink_in_place_guard:
  assumes "p \<noteq> 0" and "n \<noteq> 0" and "valid_hdr s (p - META_SIZE)"
    and "status (hdrs s (p - META_SIZE)) \<noteq> 0"
    and "n < size_m (hdrs s (p - META_SIZE))"
    and "sint (ucast (size_m (hdrs s (p - META_SIZE)) - align n - META_SIZE) :: 32 word) \<le> 0"
  shows "os_realloc s p n = Inr (set_size s (p - META_SIZE) (align n), p)"
  using assms by (simp add: os_realloc_def split_realloc_def chk_def Let_def)

theorem realloc_shrink_in_place_guard_witness:
  "(let s = state_after [Malloc 200000]; p = 0x7f0000000020; n = 199990
    in p \<noteq> 0 \<and> n \<noteq> 0 \<and> valid_hdr s (p - META_SIZE)
       \<and> status (hdrs s (p - META_SIZE)) \<noteq> 0 \<and> n < size_m (hdrs s (p - META_SIZE))
       \<and> sint (ucast (size_m (hdrs s (p - META_SIZE)) - align n - META_SIZE) :: 32 word) \<le> 0
       \<and> os_realloc s p n = Inr (set_size s (p - META_SIZE) 199992, p))"
  using realloc_shrink_in_place_guard [of "0x7f0000000020" 199990
      "state_after [Malloc 200000]"]
  by (simp add: model_defs)

end
